theory Spec2Isabelle
  imports Main
begin

section \<open>Coordinate systems of bb_cs.py\<close>

text \<open>
  The module keeps a tree of named coordinate systems and converts positions between
  them. Objects are mutable and compared by identity (\<open>is\<close>), so the model keeps
  them in a store: a coordinate system is referred to by its index in the list of all
  coordinate systems constructed so far, a position by its index in the list of positions.

  Pose scalars are Python numbers. Their type is left open (\<open>'a\<close>); the only
  operation the module itself applies to them is \<open>+\<close>. Matrices are numpy arrays, of
  type \<open>'m\<close>.
\<close>

subsection \<open>Exceptions\<close>

text \<open>
  The exceptions a call of the module can end with: a \<open>TypeError\<close> of the
  interpreter (an operand that is \<open>None\<close>, a call of something that is not callable,
  \<open>reduce\<close> of an empty list), the \<open>OverflowError\<close> and \<open>ValueError\<close> of the
  numeric functions (a number beyond the range of a float, a sine of infinity), numpy's
  \<open>LinAlgError\<close>, and the \<open>Exception(message)\<close> that \<open>to_this\<close> raises itself.
\<close>

datatype error = TypeError | OverflowError | ValueError | LinAlgError | Exception string

subsection \<open>The numeric libraries\<close>

text \<open>
  \<open>math.radians\<close>, \<open>tf.transformations\<close> and \<open>numpy\<close> are not code of this
  module. The model takes them as a parameter, one field for each function the module
  calls:
  \<^item> \<open>math_radians\<close>: \<open>radians(d)\<close>, or the exception it raises;
  \<^item> \<open>tf_euler_matrix\<close>: \<open>transformations.euler_matrix(ai, aj, ak, axes)\<close>, or the
    exception it raises;
  \<^item> \<open>tf_translation_matrix\<close>: \<open>transformations.translation_matrix((x, y, z))\<close>, or
    the exception it raises;
  \<^item> \<open>np_dot\<close>: \<open>numpy.dot(a, b)\<close>;
  \<^item> \<open>np_inv\<close>: \<open>numpy.linalg.inv(a)\<close>, \<open>None\<close> when it raises \<open>LinAlgError\<close>;
  \<^item> \<open>np_array\<close>: \<open>numpy.array([[x], [y], [z], [1]])\<close>;
  \<^item> \<open>np_item\<close>: \<open>arr[i][0]\<close>;
  \<^item> \<open>format_7_4f\<close>: \<open>"{:7.4f}".format(v)\<close>.
\<close>

record ('a, 'm) lib =
  math_radians :: "'a \<Rightarrow> error + 'a"
  tf_euler_matrix :: "'a \<Rightarrow> 'a \<Rightarrow> 'a \<Rightarrow> string \<Rightarrow> error + 'm"
  tf_translation_matrix :: "'a \<times> 'a \<times> 'a \<Rightarrow> error + 'm"
  np_dot :: "'m \<Rightarrow> 'm \<Rightarrow> 'm"
  np_inv :: "'m \<Rightarrow> 'm option"
  np_array :: "'a \<Rightarrow> 'a \<Rightarrow> 'a \<Rightarrow> 'm"
  np_item :: "'m \<Rightarrow> nat \<Rightarrow> 'a"
  format_7_4f :: "'a \<Rightarrow> string"

subsection \<open>Data\<close>

type_synonym cs_ref = nat
type_synonym pos_ref = nat

record 'a position =
  owner :: cs_ref
  pos_x :: 'a
  pos_y :: 'a
  pos_z :: 'a

record ('a, 'm) coordinate_system =
  parent :: "cs_ref option"
  name :: string
  cs_x :: 'a
  cs_y :: 'a
  cs_z :: 'a
  cs_rotx :: 'a
  cs_roty :: 'a
  cs_rotz :: 'a
  mat_from_parent :: "'m option"
  mat_to_parent :: "'m option"
  x_stored :: 'a
  y_stored :: 'a
  z_stored :: 'a
  rotx_stored :: 'a
  roty_stored :: 'a
  rotz_stored :: 'a

subsection \<open>Transform builder\<close>

text \<open>
  The arguments of \<open>euler_matrix\<close> are evaluated from the left, then
  \<open>translation_matrix\<close> is called, then \<open>numpy.dot\<close>; the first exception ends the
  call.
\<close>

definition calc_transformation_matrix ::
  "('a, 'm) lib \<Rightarrow> 'a \<Rightarrow> 'a \<Rightarrow> 'a \<Rightarrow> 'a \<Rightarrow> 'a \<Rightarrow> 'a \<Rightarrow> error + 'm" where
  "calc_transformation_matrix L x y z rotx roty rotz =
     (case math_radians L rotz of
        Inl e \<Rightarrow> Inl e
      | Inr az \<Rightarrow>
     (case math_radians L rotx of
        Inl e \<Rightarrow> Inl e
      | Inr ax \<Rightarrow>
     (case math_radians L roty of
        Inl e \<Rightarrow> Inl e
      | Inr ay \<Rightarrow>
     (case tf_euler_matrix L az ax ay ''rzxy'' of
        Inl e \<Rightarrow> Inl e
      | Inr r_mat \<Rightarrow>
     (case tf_translation_matrix L (x, y, z) of
        Inl e \<Rightarrow> Inl e
      | Inr t_mat \<Rightarrow> Inr (np_dot L t_mat r_mat))))))"

text \<open>The transform builder on the pose a coordinate system currently has.\<close>

definition pose_matrix :: "('a, 'm) lib \<Rightarrow> ('a, 'm) coordinate_system \<Rightarrow> error + 'm" where
  "pose_matrix L c =
     calc_transformation_matrix L (cs_x c) (cs_y c) (cs_z c) (cs_rotx c) (cs_roty c) (cs_rotz c)"

subsection \<open>Methods that touch one coordinate system\<close>

text \<open>
  An argument left out (or passed as \<open>None\<close>) is \<open>None\<close>, a supplied number
  \<open>v\<close> is \<open>Some v\<close>.

  \<open>redefine\<close> assigns the supplied scalars first and calls the transform builder
  after that. Its result is the exception of the builder, if there is one, and the
  coordinate system as the call leaves it: when the builder raises, the scalars are
  already assigned and the two matrices are not.
\<close>

definition redefine ::
  "('a, 'm) lib \<Rightarrow> ('a, 'm) coordinate_system \<Rightarrow>
   'a option \<Rightarrow> 'a option \<Rightarrow> 'a option \<Rightarrow> 'a option \<Rightarrow> 'a option \<Rightarrow> 'a option \<Rightarrow>
   error option \<times> ('a, 'm) coordinate_system" where
  "redefine L c new_x new_y new_z new_rotx new_roty new_rotz =
     (let x = (case new_x of None \<Rightarrow> cs_x c | Some v \<Rightarrow> v);
          y = (case new_y of None \<Rightarrow> cs_y c | Some v \<Rightarrow> v);
          z = (case new_z of None \<Rightarrow> cs_z c | Some v \<Rightarrow> v);
          rotx = (case new_rotx of None \<Rightarrow> cs_rotx c | Some v \<Rightarrow> v);
          roty = (case new_roty of None \<Rightarrow> cs_roty c | Some v \<Rightarrow> v);
          rotz = (case new_rotz of None \<Rightarrow> cs_rotz c | Some v \<Rightarrow> v);
          c1 = c\<lparr>cs_x := x, cs_y := y, cs_z := z,
                 cs_rotx := rotx, cs_roty := roty, cs_rotz := rotz\<rparr>
      in case calc_transformation_matrix L x y z rotx roty rotz of
           Inl e \<Rightarrow> (Some e, c1)
         | Inr m \<Rightarrow> (None, c1\<lparr>mat_to_parent := Some m, mat_from_parent := None\<rparr>))"

text \<open>
  \<open>CoordinateSystem.__init__\<close>: the fields are set, then \<open>redefine\<close> is called. When
  that raises, the constructor raises and there is no new object.
\<close>

definition cs_init ::
  "('a, 'm) lib \<Rightarrow> cs_ref option \<Rightarrow> string \<Rightarrow> 'a \<Rightarrow> 'a \<Rightarrow> 'a \<Rightarrow> 'a \<Rightarrow> 'a \<Rightarrow> 'a \<Rightarrow>
   error + ('a, 'm) coordinate_system" where
  "cs_init L parent_cs nm x y z rotx roty rotz =
     (case redefine L
             \<lparr>parent = parent_cs, name = nm,
              cs_x = x, cs_y = y, cs_z = z, cs_rotx = rotx, cs_roty = roty, cs_rotz = rotz,
              mat_from_parent = None, mat_to_parent = None,
              x_stored = x, y_stored = y, z_stored = z,
              rotx_stored = rotx, roty_stored = roty, rotz_stored = rotz\<rparr>
             (Some x) (Some y) (Some z) (Some rotx) (Some roty) (Some rotz) of
        (None, c) \<Rightarrow> Inr c
      | (Some e, c) \<Rightarrow> Inl e)"

text \<open>
  \<open>update_mat_from_parent\<close>: \<open>numpy.linalg.inv\<close> raises on a matrix it cannot invert,
  and on \<open>None\<close>; the assignment then does not happen.
\<close>

definition update_mat_from_parent ::
  "('a, 'm) lib \<Rightarrow> ('a, 'm) coordinate_system \<Rightarrow> error + ('a, 'm) coordinate_system" where
  "update_mat_from_parent L c =
     (case mat_to_parent c of
        None \<Rightarrow> Inl LinAlgError
      | Some m \<Rightarrow>
          (case np_inv L m of
             None \<Rightarrow> Inl LinAlgError
           | Some mi \<Rightarrow> Inr (c\<lparr>mat_from_parent := Some mi\<rparr>)))"

text \<open>
  \<open>get_derivative\<close>. The tests of the three rotations read \<open>d_z\<close>, as the source
  does; \<open>self._rotx + d_rotx\<close> with \<open>d_rotx\<close> \<open>None\<close> is a \<open>TypeError\<close>.
\<close>

definition py_add :: "'a::plus \<Rightarrow> 'a option \<Rightarrow> error + 'a" where
  "py_add a d = (case d of None \<Rightarrow> Inl TypeError | Some v \<Rightarrow> Inr (a + v))"

definition get_derivative ::
  "('a::plus, 'm) lib \<Rightarrow> ('a, 'm) coordinate_system \<Rightarrow> string \<Rightarrow>
   'a option \<Rightarrow> 'a option \<Rightarrow> 'a option \<Rightarrow> 'a option \<Rightarrow> 'a option \<Rightarrow> 'a option \<Rightarrow>
   error + ('a, 'm) coordinate_system" where
  "get_derivative L c nm d_x d_y d_z d_rotx d_roty d_rotz =
     (let x = (case d_x of None \<Rightarrow> cs_x c | Some d \<Rightarrow> cs_x c + d);
          y = (case d_y of None \<Rightarrow> cs_y c | Some d \<Rightarrow> cs_y c + d);
          z = (case d_z of None \<Rightarrow> cs_z c | Some d \<Rightarrow> cs_z c + d)
      in case (case d_z of None \<Rightarrow> Inr (cs_rotx c) | Some _ \<Rightarrow> py_add (cs_rotx c) d_rotx) of
           Inl e \<Rightarrow> Inl e
         | Inr rotx \<Rightarrow>
       (case (case d_z of None \<Rightarrow> Inr (cs_roty c) | Some _ \<Rightarrow> py_add (cs_roty c) d_roty) of
           Inl e \<Rightarrow> Inl e
         | Inr roty \<Rightarrow>
       (case (case d_z of None \<Rightarrow> Inr (cs_rotz c) | Some _ \<Rightarrow> py_add (cs_rotz c) d_rotz) of
           Inl e \<Rightarrow> Inl e
         | Inr rotz \<Rightarrow> cs_init L (parent c) nm x y z rotx roty rotz)))"

definition backup :: "('a, 'm) coordinate_system \<Rightarrow> ('a, 'm) coordinate_system" where
  "backup c =
     c\<lparr>x_stored := cs_x c, y_stored := cs_y c, z_stored := cs_z c,
       rotx_stored := cs_rotx c, roty_stored := cs_roty c, rotz_stored := cs_rotz c\<rparr>"

definition rollback ::
  "('a, 'm) lib \<Rightarrow> ('a, 'm) coordinate_system \<Rightarrow>
   error option \<times> ('a, 'm) coordinate_system" where
  "rollback L c =
     redefine L c (Some (x_stored c)) (Some (y_stored c)) (Some (z_stored c))
       (Some (rotx_stored c)) (Some (roty_stored c)) (Some (rotz_stored c))"

subsection \<open>The store, ancestor chains and routes\<close>

datatype direction = Up | Down | Root

type_synonym path = "(cs_ref \<times> direction) list"

text \<open>
  \<open>frames\<close> holds every coordinate system constructed so far, \<open>positions\<close> every
  position, \<open>route_base\<close> is the module's dictionary of routes already found.
\<close>

record ('a, 'm) world =
  frames :: "('a, 'm) coordinate_system list"
  positions :: "'a position list"
  route_base :: "string \<rightharpoonup> path"

text \<open>
  The \<open>while\<close> loop of \<open>to_root\<close> follows the parent links. It runs with fuel: one
  unit for each test of \<open>current.parent\<close>. \<open>None\<close> says that the loop did not come
  to an end within the fuel, or met a reference that is no object of the store.
\<close>

fun to_root_loop ::
  "nat \<Rightarrow> ('a, 'm) coordinate_system list \<Rightarrow> cs_ref list \<Rightarrow> cs_ref \<Rightarrow> cs_ref list option" where
  "to_root_loop 0 fs root_list current = None"
| "to_root_loop (Suc k) fs root_list current =
     (if current < length fs then
        (case parent (fs ! current) of
           None \<Rightarrow> Some root_list
         | Some p \<Rightarrow> to_root_loop k fs (root_list @ [p]) p)
      else None)"

text \<open>
  A chain of parent links without a cycle visits each coordinate system at most once, so
  as many units of fuel as the store has coordinate systems are enough for it.
\<close>

definition to_root :: "('a, 'm) coordinate_system list \<Rightarrow> cs_ref \<Rightarrow> cs_ref list option" where
  "to_root fs self = to_root_loop (length fs) fs [self] self"

text \<open>\<open>list.index\<close> on a list that holds the element: the first place it is at.\<close>

definition index_of :: "'b \<Rightarrow> 'b list \<Rightarrow> nat" where
  "index_of v xs = length (takeWhile (\<lambda>y. y \<noteq> v) xs)"

text \<open>
  The \<open>for\<close> loop of \<open>route\<close>. The slice \<open>cs2_to_root[intersection_index - 1::-1]\<close>
  is the first \<open>intersection_index\<close> elements, last one first.
\<close>

fun route_loop :: "cs_ref list \<Rightarrow> cs_ref list \<Rightarrow> path \<Rightarrow> path option" where
  "route_loop [] cs2_to_root built_route = None"
| "route_loop (node # rest) cs2_to_root built_route =
     (if node \<in> set cs2_to_root then
        (let intersection_index = index_of node cs2_to_root
         in Some (built_route @ [(node, Root)] @
                  (if intersection_index > 0
                   then map (\<lambda>n. (n, Down)) (rev (take intersection_index cs2_to_root))
                   else [])))
      else route_loop rest cs2_to_root (built_route @ [(node, Up)]))"

definition route_desc :: "('a, 'm) coordinate_system list \<Rightarrow> cs_ref \<Rightarrow> cs_ref \<Rightarrow> string" where
  "route_desc fs from_cs to_cs = name (fs ! from_cs) @ ''-'' @ name (fs ! to_cs)"

text \<open>What \<open>route\<close> builds when the dictionary has no entry: the search itself.\<close>

definition fresh_route ::
  "('a, 'm) coordinate_system list \<Rightarrow> cs_ref \<Rightarrow> cs_ref \<Rightarrow> path option option" where
  "fresh_route fs from_cs to_cs =
     (case to_root fs from_cs of
        None \<Rightarrow> None
      | Some cs1_to_root \<Rightarrow>
          (case to_root fs to_cs of
             None \<Rightarrow> None
           | Some cs2_to_root \<Rightarrow> Some (route_loop cs1_to_root cs2_to_root [])))"

text \<open>
  \<open>route\<close> returns the path (\<open>None\<close> for Python's \<open>None\<close>) and the store with the
  dictionary as the call leaves it.
\<close>

definition route ::
  "('a, 'm) world \<Rightarrow> cs_ref \<Rightarrow> cs_ref \<Rightarrow> (path option \<times> ('a, 'm) world) option" where
  "route w from_cs to_cs =
     (if from_cs < length (frames w) \<and> to_cs < length (frames w) then
        (let k = route_desc (frames w) from_cs to_cs
         in case route_base w k of
              Some r \<Rightarrow> Some (Some r, w)
            | None \<Rightarrow>
                (case fresh_route (frames w) from_cs to_cs of
                   None \<Rightarrow> None
                 | Some None \<Rightarrow> Some (None, w)
                 | Some (Some built_route) \<Rightarrow>
                     Some (Some built_route,
                           w\<lparr>route_base := (route_base w)(k \<mapsto> built_route)\<rparr>)))
      else None)"

subsection \<open>Strings\<close>

text \<open>
  \<open>CoordinateSystem.__str__\<close> is declared under \<open>@property\<close>. \<open>str(c)\<close> takes the
  attribute \<open>__str__\<close> of \<open>c\<close>, which through the property is already the name, a
  string, and calls it: a string is not callable, and the call is a \<open>TypeError\<close>.
\<close>

definition str_property :: "('a, 'm) coordinate_system \<Rightarrow> string" where
  "str_property c = name c"

definition call_string :: "string \<Rightarrow> error + string" where
  "call_string s = Inl TypeError"

definition cs_str :: "('a, 'm) coordinate_system \<Rightarrow> error + string" where
  "cs_str c = call_string (str_property c)"

definition position_str ::
  "('a, 'm) lib \<Rightarrow> ('a, 'm) coordinate_system list \<Rightarrow> 'a position \<Rightarrow> error + string" where
  "position_str L fs p =
     (case cs_str (fs ! owner p) of
        Inl e \<Rightarrow> Inl e
      | Inr s \<Rightarrow> Inr (s @ '' '' @ format_7_4f L (pos_x p) @ ''|'' @ format_7_4f L (pos_y p)
                      @ ''|'' @ format_7_4f L (pos_z p)))"

definition route_error_message ::
  "('a, 'm) lib \<Rightarrow> ('a, 'm) coordinate_system list \<Rightarrow> 'a position \<Rightarrow> cs_ref \<Rightarrow> error + string" where
  "route_error_message L fs p self =
     (case position_str L fs p of
        Inl e \<Rightarrow> Inl e
      | Inr ps \<Rightarrow>
          (case cs_str (fs ! self) of
             Inl e \<Rightarrow> Inl e
           | Inr ss \<Rightarrow> Inr (''Could not convert '' @ ps @ '' to '' @ ss
                            @ '': conversion route could not be found.'')))"

subsection \<open>Conversion of a position\<close>

text \<open>\<open>numpy.dot\<close> with an operand that is \<open>None\<close> raises.\<close>

definition dot_opt :: "('a, 'm) lib \<Rightarrow> 'm option \<Rightarrow> 'm option \<Rightarrow> error + 'm" where
  "dot_opt L a b =
     (case a of
        None \<Rightarrow> Inl TypeError
      | Some m1 \<Rightarrow> (case b of None \<Rightarrow> Inl TypeError | Some m2 \<Rightarrow> Inr (np_dot L m1 m2)))"

text \<open>
  \<open>reduce(numpy.dot, ms)\<close>: a \<open>TypeError\<close> on the empty list, the element itself on a
  list of one, and the products from the left otherwise.
\<close>

fun reduce_from :: "('a, 'm) lib \<Rightarrow> 'm option \<Rightarrow> 'm option list \<Rightarrow> error + 'm option" where
  "reduce_from L acc [] = Inr acc"
| "reduce_from L acc (m # ms) =
     (case dot_opt L acc m of Inl e \<Rightarrow> Inl e | Inr a \<Rightarrow> reduce_from L (Some a) ms)"

definition reduce_dot :: "('a, 'm) lib \<Rightarrow> 'm option list \<Rightarrow> error + 'm option" where
  "reduce_dot L ms = (case ms of [] \<Rightarrow> Inl TypeError | m # rest \<Rightarrow> reduce_from L m rest)"

text \<open>
  The loop of \<open>to_this\<close> over the route: it collects one matrix for each step up or
  down, and fills \<open>mat_from_parent\<close> of a coordinate system it steps down to when that
  is still \<open>None\<close>. An exception leaves the coordinate systems as they are at that point.
\<close>

fun gather ::
  "('a, 'm) lib \<Rightarrow> path \<Rightarrow> ('a, 'm) coordinate_system list \<Rightarrow> 'm option list \<Rightarrow>
   ((error + 'm option list) \<times> ('a, 'm) coordinate_system list) option" where
  "gather L [] fs transformation_matrices = Some (Inr transformation_matrices, fs)"
| "gather L ((n, d) # rest) fs transformation_matrices =
     (if n < length fs then
        (case d of
           Up \<Rightarrow> gather L rest fs (transformation_matrices @ [mat_to_parent (fs ! n)])
         | Down \<Rightarrow>
             (case mat_from_parent (fs ! n) of
                None \<Rightarrow>
                  (case update_mat_from_parent L (fs ! n) of
                     Inl e \<Rightarrow> Some (Inl e, fs)
                   | Inr c' \<Rightarrow>
                       gather L rest (fs[n := c'])
                         (transformation_matrices @ [mat_from_parent c']))
              | Some mi \<Rightarrow> gather L rest fs (transformation_matrices @ [Some mi]))
         | Root \<Rightarrow> gather L rest fs transformation_matrices)
      else None)"

text \<open>
  \<open>fill_position\<close> on the new \<open>Position(self)\<close>: the position that \<open>to_this\<close>
  returns is a new object of the store.
\<close>

definition fill_position ::
  "('a, 'm) lib \<Rightarrow> ('a, 'm) world \<Rightarrow> cs_ref \<Rightarrow> 'm \<Rightarrow> pos_ref \<times> ('a, 'm) world" where
  "fill_position L w self arr =
     (length (positions w),
      w\<lparr>positions := positions w @
           [\<lparr>owner = self, pos_x = np_item L arr 0, pos_y = np_item L arr 1,
             pos_z = np_item L arr 2\<rparr>]\<rparr>)"

definition finish ::
  "('a, 'm) lib \<Rightarrow> ('a, 'm) world \<Rightarrow> cs_ref \<Rightarrow> error + 'm \<Rightarrow>
   ((error + pos_ref) \<times> ('a, 'm) world) option" where
  "finish L w self r =
     (case r of
        Inl e \<Rightarrow> Some (Inl e, w)
      | Inr new_pos_array \<Rightarrow>
          (case fill_position L w self new_pos_array of (p', w') \<Rightarrow> Some (Inr p', w')))"

text \<open>
  \<open>to_this\<close>: the result is the reference of the position returned or the exception
  raised, with the store as the call leaves it. \<open>None\<close> says that the call has no
  outcome: an ancestor walk without end, or an argument that is no object of the store.
\<close>

definition to_this ::
  "('a, 'm) lib \<Rightarrow> ('a, 'm) world \<Rightarrow> cs_ref \<Rightarrow> pos_ref \<Rightarrow>
   ((error + pos_ref) \<times> ('a, 'm) world) option" where
  "to_this L w self p =
     (if self < length (frames w) \<and> p < length (positions w)
         \<and> owner (positions w ! p) < length (frames w) then
        (let position = positions w ! p; ow = owner position
         in if ow = self then Some (Inr p, w)
            else
              (let pos_array = np_array L (pos_x position) (pos_y position) (pos_z position)
               in if parent (frames w ! ow) = Some self then
                    finish L w self (dot_opt L (mat_to_parent (frames w ! ow)) (Some pos_array))
                  else if parent (frames w ! self) = Some ow then
                    (case (case mat_from_parent (frames w ! self) of
                             None \<Rightarrow> update_mat_from_parent L (frames w ! self)
                           | Some mi \<Rightarrow> Inr (frames w ! self)) of
                       Inl e \<Rightarrow> Some (Inl e, w)
                     | Inr c' \<Rightarrow>
                         finish L (w\<lparr>frames := (frames w)[self := c']\<rparr>) self
                           (dot_opt L (mat_from_parent c') (Some pos_array)))
                  else
                    (case route w ow self of
                       None \<Rightarrow> None
                     | Some (None, w1) \<Rightarrow>
                         (case route_error_message L (frames w1) position self of
                            Inl e \<Rightarrow> Some (Inl e, w1)
                          | Inr msg \<Rightarrow> Some (Inl (Exception msg), w1))
                     | Some (Some conversion_route, w1) \<Rightarrow>
                         (case gather L conversion_route (frames w1) [] of
                            None \<Rightarrow> None
                          | Some (Inl e, fs) \<Rightarrow> Some (Inl e, w1\<lparr>frames := fs\<rparr>)
                          | Some (Inr transformation_matrices, fs) \<Rightarrow>
                              (case reduce_dot L (rev transformation_matrices) of
                                 Inl e \<Rightarrow> Some (Inl e, w1\<lparr>frames := fs\<rparr>)
                               | Inr aggregate_transformation \<Rightarrow>
                                   finish L (w1\<lparr>frames := fs\<rparr>) self
                                     (dot_opt L aggregate_transformation (Some pos_array)))))))
      else None)"

subsection \<open>Calls of the public interface\<close>

text \<open>
  A program that uses the module is a sequence of calls. Each call takes the store to the
  store it leaves behind, also when it ends with an exception (the caller may catch it
  and go on). \<open>None\<close>: the call has no outcome, or names an object that does not exist.
  \<open>redefine_tuple\<close> is \<open>redefine\<close> with its arguments in two tuples, \<open>origin\<close> and
  \<open>clone\<close> construct a position, and \<open>distance_to\<close> changes the store as the
  \<open>to_this\<close> it calls does.
\<close>

datatype 'a call =
    New_cs "cs_ref option" string 'a 'a 'a 'a 'a 'a
  | New_position cs_ref 'a 'a 'a
  | Redefine cs_ref "'a option" "'a option" "'a option" "'a option" "'a option" "'a option"
  | Get_derivative cs_ref string
      "'a option" "'a option" "'a option" "'a option" "'a option" "'a option"
  | Backup cs_ref
  | Rollback cs_ref
  | Update_mat_from_parent cs_ref
  | Route cs_ref cs_ref
  | To_this cs_ref pos_ref
  | Set_tuple pos_ref 'a 'a 'a

definition known_parent :: "('a, 'm) world \<Rightarrow> cs_ref option \<Rightarrow> bool" where
  "known_parent w par = (case par of None \<Rightarrow> True | Some q \<Rightarrow> q < length (frames w))"

definition on_frame ::
  "('a, 'm) world \<Rightarrow> cs_ref \<Rightarrow> (('a, 'm) coordinate_system \<Rightarrow> ('a, 'm) coordinate_system) \<Rightarrow>
   ('a, 'm) world option" where
  "on_frame w r f =
     (if r < length (frames w) then Some (w\<lparr>frames := (frames w)[r := f (frames w ! r)]\<rparr>)
      else None)"

fun do_call :: "('a::plus, 'm) lib \<Rightarrow> ('a, 'm) world \<Rightarrow> 'a call \<Rightarrow> ('a, 'm) world option" where
  "do_call L w (New_cs par nm x y z rotx roty rotz) =
     (if known_parent w par then
        (case cs_init L par nm x y z rotx roty rotz of
           Inl e \<Rightarrow> Some w
         | Inr c \<Rightarrow> Some (w\<lparr>frames := frames w @ [c]\<rparr>))
      else None)"
| "do_call L w (New_position ow x y z) =
     (if ow < length (frames w)
      then Some (w\<lparr>positions := positions w @ [\<lparr>owner = ow, pos_x = x, pos_y = y, pos_z = z\<rparr>]\<rparr>)
      else None)"
| "do_call L w (Redefine r nx ny nz nrx nry nrz) =
     on_frame w r (\<lambda>c. snd (redefine L c nx ny nz nrx nry nrz))"
| "do_call L w (Get_derivative r nm dx dy dz drx dry drz) =
     (if r < length (frames w) then
        (case get_derivative L (frames w ! r) nm dx dy dz drx dry drz of
           Inl e \<Rightarrow> Some w
         | Inr c \<Rightarrow> Some (w\<lparr>frames := frames w @ [c]\<rparr>))
      else None)"
| "do_call L w (Backup r) = on_frame w r backup"
| "do_call L w (Rollback r) = on_frame w r (\<lambda>c. snd (rollback L c))"
| "do_call L w (Update_mat_from_parent r) =
     on_frame w r (\<lambda>c. case update_mat_from_parent L c of Inl e \<Rightarrow> c | Inr c' \<Rightarrow> c')"
| "do_call L w (Route from_cs to_cs) = map_option snd (route w from_cs to_cs)"
| "do_call L w (To_this self p) = map_option snd (to_this L w self p)"
| "do_call L w (Set_tuple p x y z) =
     (if p < length (positions w)
      then Some (w\<lparr>positions :=
                  (positions w)[p := (positions w ! p)\<lparr>pos_x := x, pos_y := y, pos_z := z\<rparr>]\<rparr>)
      else None)"

fun run :: "('a::plus, 'm) lib \<Rightarrow> ('a, 'm) world \<Rightarrow> 'a call list \<Rightarrow> ('a, 'm) world option" where
  "run L w [] = Some w"
| "run L w (c # cs) = (case do_call L w c of None \<Rightarrow> None | Some w' \<Rightarrow> run L w' cs)"

text \<open>The store when the module has just been loaded.\<close>

definition empty_world :: "('a, 'm) world" where
  "empty_world = \<lparr>frames = [], positions = [], route_base = Map.empty\<rparr>"




text \<open>The six pose scalars and the six stored scalars of a coordinate system.\<close>

definition pose :: "('a, 'm) coordinate_system \<Rightarrow> 'a \<times> 'a \<times> 'a \<times> 'a \<times> 'a \<times> 'a" where
  "pose c = (cs_x c, cs_y c, cs_z c, cs_rotx c, cs_roty c, cs_rotz c)"


subsection \<open>Stores that calls can build\<close>

text \<open>
  A parent exists before its child is constructed, and no method assigns \<open>parent\<close>: in
  a store built by calls every parent has a smaller index than its child
  (\<open>parents_before\<close>), every coordinate system of a stored route and every owner of a
  position is an object of the store. \<open>valid_call\<close>: the call names objects of the
  store.
\<close>

definition parents_before :: "('a, 'm) coordinate_system list \<Rightarrow> bool" where
  "parents_before fs = (\<forall>i < length fs. \<forall>q. parent (fs ! i) = Some q \<longrightarrow> q < i)"

definition path_in :: "nat \<Rightarrow> path \<Rightarrow> bool" where
  "path_in n r = (\<forall>x \<in> set r. fst x < n)"

definition wf_world :: "('a, 'm) world \<Rightarrow> bool" where
  "wf_world w =
     (parents_before (frames w) \<and>
      (\<forall>k r. route_base w k = Some r \<longrightarrow> path_in (length (frames w)) r) \<and>
      (\<forall>p < length (positions w). owner (positions w ! p) < length (frames w)))"

definition valid_call :: "('a, 'm) world \<Rightarrow> 'a call \<Rightarrow> bool" where
  "valid_call w c =
     (case c of
        New_cs par nm x y z rx ry rz \<Rightarrow> known_parent w par
      | New_position ow x y z \<Rightarrow> ow < length (frames w)
      | Redefine r nx ny nz nrx nry nrz \<Rightarrow> r < length (frames w)
      | Get_derivative r nm dx dy dz drx dry drz \<Rightarrow> r < length (frames w)
      | Backup r \<Rightarrow> r < length (frames w)
      | Rollback r \<Rightarrow> r < length (frames w)
      | Update_mat_from_parent r \<Rightarrow> r < length (frames w)
      | Route a b \<Rightarrow> a < length (frames w) \<and> b < length (frames w)
      | To_this self p \<Rightarrow> self < length (frames w) \<and> p < length (positions w)
      | Set_tuple p x y z \<Rightarrow> p < length (positions w))"

subsection \<open>A library to run examples with\<close>

text \<open>
  Integer scalars and poses without rotation. The homogeneous matrix of the translation
  by \<open>(a, b, c)\<close> and the column \<open>[a, b, c, 1]\<close> are both written \<open>(a, b, c)\<close>:
  the product of two translations adds them, the product of a translation and a column
  moves the point, the inverse negates. An integer of \<open>2 ** 1024\<close> or more does not
  convert to a float, and \<open>radians\<close> raises \<open>OverflowError\<close> on it. Every angle in
  the examples below is 0, where \<open>euler_matrix\<close> is the identity, or \<open>2 ** 1024\<close>.
\<close>

definition float_range :: int where
  "float_range = 2 ^ 1024"

definition translation_lib :: "(int, int \<times> int \<times> int) lib" where
  "translation_lib =
     \<lparr>math_radians = (\<lambda>d. if \<bar>d\<bar> < float_range then Inr d else Inl OverflowError),
      tf_euler_matrix = (\<lambda>ai aj ak axes. Inr (0, 0, 0)),
      tf_translation_matrix = (\<lambda>t. Inr t),
      np_dot = (\<lambda>(a, b, c) (d, e, f). (a + d, b + e, c + f)),
      np_inv = (\<lambda>(a, b, c). Some (- a, - b, - c)),
      np_array = (\<lambda>x y z. (x, y, z)),
      np_item = (\<lambda>(a, b, c) i. [a, b, c] ! i),
      format_7_4f = (\<lambda>v. [])\<rparr>"

subsection \<open>Example stores\<close>

text \<open>
  \<open>plain_frame par nm x y z\<close>: the coordinate system that
  \<open>CoordinateSystem(par, nm, x, y, z, 0, 0, 0)\<close> constructs with this library.
\<close>

definition plain_frame ::
  "cs_ref option \<Rightarrow> string \<Rightarrow> int \<Rightarrow> int \<Rightarrow> int \<Rightarrow> (int, int \<times> int \<times> int) coordinate_system" where
  "plain_frame par nm x y z =
     \<lparr>parent = par, name = nm,
      cs_x = x, cs_y = y, cs_z = z, cs_rotx = 0, cs_roty = 0, cs_rotz = 0,
      mat_from_parent = None, mat_to_parent = Some (x, y, z),
      x_stored = x, y_stored = y, z_stored = z,
      rotx_stored = 0, roty_stored = 0, rotz_stored = 0\<rparr>"

text \<open>
  \<open>two_roots\<close>: two coordinate systems without parent, and a position of the first.
  \<open>dash_frames\<close>: a root with the children \<open>a-b\<close> and \<open>c\<close>, which have the children
  \<open>a\<close> and \<open>b-c\<close>. \<open>example_calls\<close>: a chain of three coordinate systems, a
  conversion down the chain, a backup of the lowest one, a redefinition of it that
  raises, one that returns, and a rollback.
\<close>

definition two_roots :: "(int, int \<times> int \<times> int) world" where
  "two_roots =
     \<lparr>frames = [plain_frame None ''R1'' 0 0 0, plain_frame None ''R2'' 0 0 0],
      positions = [\<lparr>owner = 0, pos_x = 1, pos_y = 2, pos_z = 3\<rparr>],
      route_base = Map.empty\<rparr>"

definition dash_frames :: "(int, int \<times> int \<times> int) coordinate_system list" where
  "dash_frames =
     [plain_frame None ''r'' 0 0 0,
      plain_frame (Some 0) ''a-b'' 0 0 0,
      plain_frame (Some 0) ''c'' 0 0 0,
      plain_frame (Some 1) ''a'' 0 0 0,
      plain_frame (Some 2) ''b-c'' 0 0 0]"

definition dash_world :: "(int, int \<times> int \<times> int) world" where
  "dash_world = \<lparr>frames = dash_frames, positions = [], route_base = Map.empty\<rparr>"


text \<open>
  \<open>frame_with_inverse\<close>: a coordinate system at (1, 2, 3) after
  \<open>update_mat_from_parent\<close>. \<open>stale_calls\<close>: that coordinate system is constructed,
  its inverse is computed, and it is redefined with a rotation beyond the range of a
  float; \<open>stale_world\<close> is the store these calls leave. \<open>dash_cached\<close>:
  \<open>dash_world\<close> after the call \<open>route\<close> from \<open>a-b\<close> to \<open>c\<close>.
  \<open>split_world\<close>: as \<open>dash_cached\<close>, but \<open>b-c\<close> is the root of a tree of its own,
  the other coordinate systems are moved off the origin, and there is a position of
  \<open>a\<close>.
\<close>

definition frame_with_inverse :: "(int, int \<times> int \<times> int) coordinate_system" where
  "frame_with_inverse = (plain_frame None ''F'' 1 2 3)\<lparr>mat_from_parent := Some (- 1, - 2, - 3)\<rparr>"



definition dash_cached :: "(int, int \<times> int \<times> int) world" where
  "dash_cached =
     dash_world\<lparr>route_base := [''a-b-c'' \<mapsto> [(1, Up), (0, Root), (2, Down)]]\<rparr>"

definition split_world :: "(int, int \<times> int \<times> int) world" where
  "split_world =
     \<lparr>frames =
        [plain_frame None ''r'' 0 0 0,
         plain_frame (Some 0) ''a-b'' 1 0 0,
         plain_frame (Some 0) ''c'' 0 1 0,
         plain_frame (Some 1) ''a'' 0 0 1,
         plain_frame None ''b-c'' 0 0 0],
      positions = [\<lparr>owner = 3, pos_x = 0, pos_y = 0, pos_z = 0\<rparr>],
      route_base = [''a-b-c'' \<mapsto> [(1, Up), (0, Root), (2, Down)]]\<rparr>"

section \<open>Properties\<close>

subsection \<open>The example library and the example stores\<close>

text \<open>
  The transform builder of the example library returns the translation on angles 0 and
  raises on an angle of \<open>2 ** 1024\<close>. The example stores are the stores that the
  constructor and the calls named in their descriptions leave.
\<close>

lemma float_range_pos: "0 < float_range"
  by (simp add: float_range_def)

lemma float_range_out: "\<bar>float_range\<bar> = float_range"
  using float_range_pos by simp

lemma translation_lib_fields:
  "np_dot translation_lib (a, b, c) (d, e, f) = (a + d, b + e, c + f)"
  "np_inv translation_lib (a, b, c) = Some (- a, - b, - c)"
  "np_array translation_lib x y z = (x, y, z)"
  "np_item translation_lib (a, b, c) i = [a, b, c] ! i"
  by (simp_all add: translation_lib_def)

lemma calc_translation:
  "calc_transformation_matrix translation_lib x y z 0 0 0 = Inr (x, y, z)"
  by (simp add: calc_transformation_matrix_def translation_lib_def float_range_pos)

lemma calc_overflow:
  "calc_transformation_matrix translation_lib x y z float_range 0 0 = Inl OverflowError"
  by (simp add: calc_transformation_matrix_def translation_lib_def float_range_pos
        float_range_out)

lemma plain_frame_constructed:
  "cs_init translation_lib par nm x y z 0 0 0 = Inr (plain_frame par nm x y z)"
  by (simp add: cs_init_def redefine_def calc_translation plain_frame_def)


lemma two_roots_built:
  "run translation_lib empty_world
     [New_cs None ''R1'' 0 0 0 0 0 0, New_cs None ''R2'' 0 0 0 0 0 0, New_position 0 1 2 3]
   = Some two_roots"
  by (simp add: empty_world_def known_parent_def plain_frame_constructed two_roots_def)

lemma dash_cached_built:
  "run translation_lib empty_world
     [New_cs None ''r'' 0 0 0 0 0 0, New_cs (Some 0) ''a-b'' 0 0 0 0 0 0,
      New_cs (Some 0) ''c'' 0 0 0 0 0 0, New_cs (Some 1) ''a'' 0 0 0 0 0 0,
      New_cs (Some 2) ''b-c'' 0 0 0 0 0 0, Route 1 2]
   = Some dash_cached"
  by (simp add: empty_world_def known_parent_def plain_frame_constructed dash_cached_def
        dash_world_def dash_frames_def route_def route_desc_def fresh_route_def to_root_def
        index_of_def plain_frame_def Let_def numeral_2_eq_2 numeral_3_eq_3 eval_nat_numeral)


subsection \<open>Two scenarios run on the model\<close>

text \<open>
  A root at the origin, a child moved by (1, 0, 0) and a grandchild moved by (0, 1, 0):
  the origin of the grandchild is (1, 1, 0) in the root. Two children of one root: the
  route from one to the other goes up to the root and down again.
\<close>

lemma chain_scenario:
  "map_option (\<lambda>w. positions w ! 1)
     (run translation_lib empty_world
        [New_cs None ''R'' 0 0 0 0 0 0,
         New_cs (Some 0) ''C1'' 1 0 0 0 0 0,
         New_cs (Some 1) ''C2'' 0 1 0 0 0 0,
         New_position 2 0 0 0,
         To_this 0 0]) =
   Some \<lparr>owner = 0, pos_x = 1, pos_y = 1, pos_z = 0\<rparr>"
  by (simp add: empty_world_def known_parent_def plain_frame_constructed
        to_this_def route_def route_desc_def fresh_route_def to_root_def index_of_def
        finish_def fill_position_def dot_opt_def reduce_dot_def
        plain_frame_def translation_lib_fields
        Let_def numeral_2_eq_2 numeral_3_eq_3)

lemma sibling_scenario:
  "map_option fst
     (route \<lparr>frames = [plain_frame None ''R'' 0 0 0,
                        plain_frame (Some 0) ''S1'' 1 0 0,
                        plain_frame (Some 0) ''S2'' 0 1 0],
             positions = [], route_base = Map.empty\<rparr> 1 2) =
   Some (Some [(1, Up), (0, Root), (2, Down)])"
  by (simp add: route_def route_desc_def fresh_route_def to_root_def index_of_def
        plain_frame_def Let_def numeral_2_eq_2 numeral_3_eq_3)

subsection \<open>What every method keeps\<close>

text \<open>
  \<open>frame_ok\<close> holds of the coordinate system a constructor returns and is kept by
  every method, also by a \<open>redefine\<close> that raises: the pose such a call leaves is one
  the transform builder raises on.
\<close>

lemma pose_matrix_redefine:
  "pose_matrix L (snd (redefine L c nx ny nz nrx nry nrz)) =
     calc_transformation_matrix L
       (case nx of None \<Rightarrow> cs_x c | Some v \<Rightarrow> v) (case ny of None \<Rightarrow> cs_y c | Some v \<Rightarrow> v)
       (case nz of None \<Rightarrow> cs_z c | Some v \<Rightarrow> v) (case nrx of None \<Rightarrow> cs_rotx c | Some v \<Rightarrow> v)
       (case nry of None \<Rightarrow> cs_roty c | Some v \<Rightarrow> v) (case nrz of None \<Rightarrow> cs_rotz c | Some v \<Rightarrow> v)"
  by (simp add: redefine_def pose_matrix_def Let_def split: sum.splits)













lemma route_frames: "route w a b = Some (r, w') \<Longrightarrow> frames w' = frames w"
  by (auto simp: route_def Let_def split: if_splits option.splits)






subsection \<open>Calls on a store built by calls have an outcome\<close>

text \<open>
  The fuel of \<open>to_root\<close> is enough on every store that calls can build, and the
  routes found there name objects of the store: no call that names existing objects is
  without outcome.
\<close>

lemma to_root_loop_some:
  "parents_before fs \<Longrightarrow> c < length fs \<Longrightarrow> c < k \<Longrightarrow> \<exists>r. to_root_loop k fs acc c = Some r"
proof (induction k arbitrary: c acc)
  case 0
  then show ?case by simp
next
  case (Suc k)
  show ?case
  proof (cases "parent (fs ! c)")
    case None
    with Suc.prems show ?thesis by simp
  next
    case (Some q)
    with Suc.prems have "q < c" by (auto simp: parents_before_def)
    with Suc.prems have "q < length fs" "q < k" by auto
    from Suc.IH[OF Suc.prems(1) this, of "acc @ [q]"] Some Suc.prems show ?thesis by simp
  qed
qed

lemma to_root_some: "parents_before fs \<Longrightarrow> c < length fs \<Longrightarrow> \<exists>r. to_root fs c = Some r"
  unfolding to_root_def by (rule to_root_loop_some) simp_all

lemma to_root_loop_bound:
  "to_root_loop k fs acc c = Some r \<Longrightarrow> \<forall>x \<in> set acc. x < length fs \<Longrightarrow>
   \<forall>x \<in> set r. x < length fs"
proof (induction k arbitrary: c acc)
  case 0
  then show ?case by simp
next
  case (Suc k)
  show ?case
  proof (cases "parent (fs ! c)")
    case None
    with Suc.prems show ?thesis by (auto split: if_splits)
  next
    case (Some q)
    with Suc.prems have rec: "to_root_loop k fs (acc @ [q]) q = Some r"
      by (auto split: if_splits)
    then have "q < length fs" by (cases k) (auto split: if_splits)
    with Suc.prems(2) have "\<forall>x \<in> set (acc @ [q]). x < length fs" by auto
    from Suc.IH[OF rec this] show ?thesis .
  qed
qed

lemma to_root_bound: "to_root fs c = Some r \<Longrightarrow> \<forall>x \<in> set r. x < length fs"
proof -
  assume a: "to_root fs c = Some r"
  then have "c < length fs"
    unfolding to_root_def by (cases "length fs") (auto split: if_splits)
  with a show ?thesis unfolding to_root_def by (auto dest!: to_root_loop_bound)
qed

lemma route_loop_nodes:
  "route_loop xs ys b = Some r \<Longrightarrow> fst ` set r \<subseteq> set xs \<union> set ys \<union> fst ` set b"
proof (induction xs arbitrary: b)
  case Nil
  then show ?case by simp
next
  case (Cons node rest)
  show ?case
  proof (cases "node \<in> set ys")
    case True
    with Cons.prems obtain zs where r: "r = b @ [(node, Root)] @ map (\<lambda>n. (n, Down)) zs"
      and zs: "set zs \<subseteq> set ys"
    proof (cases "0 < index_of node ys")
      case True
      assume "\<And>zs. r = b @ [(node, Root)] @ map (\<lambda>n. (n, Down)) zs \<Longrightarrow>
                 set zs \<subseteq> set ys \<Longrightarrow> thesis"
      from this[of "rev (take (index_of node ys) ys)"] True Cons.prems \<open>node \<in> set ys\<close>
      show thesis by (auto simp: Let_def dest: in_set_takeD)
    next
      case False
      assume "\<And>zs. r = b @ [(node, Root)] @ map (\<lambda>n. (n, Down)) zs \<Longrightarrow>
                 set zs \<subseteq> set ys \<Longrightarrow> thesis"
      from this[of "[]"] False Cons.prems \<open>node \<in> set ys\<close>
      show thesis by (auto simp: Let_def)
    qed
    have "fst ` set r = fst ` set b \<union> {node} \<union> set zs"
      unfolding r by (auto simp: image_Un image_iff)
    with zs show ?thesis by auto
  next
    case False
    with Cons.prems have "route_loop rest ys (b @ [(node, Up)]) = Some r" by simp
    from Cons.IH[OF this] show ?thesis by auto
  qed
qed

lemma fresh_route_path_in:
  "fresh_route fs a b = Some (Some r) \<Longrightarrow> path_in (length fs) r"
proof -
  assume "fresh_route fs a b = Some (Some r)"
  then obtain xs ys where x: "to_root fs a = Some xs" and y: "to_root fs b = Some ys"
    and l: "route_loop xs ys [] = Some r"
    by (auto simp: fresh_route_def split: option.splits)
  from route_loop_nodes[OF l] to_root_bound[OF x] to_root_bound[OF y]
  show ?thesis by (auto simp: path_in_def)
qed

lemma fresh_route_some:
  "parents_before fs \<Longrightarrow> a < length fs \<Longrightarrow> b < length fs \<Longrightarrow> \<exists>r. fresh_route fs a b = Some r"
  using to_root_some[of fs a] to_root_some[of fs b] by (auto simp: fresh_route_def)

lemma route_some:
  "parents_before (frames w) \<Longrightarrow> a < length (frames w) \<Longrightarrow> b < length (frames w) \<Longrightarrow>
   \<exists>r w'. route w a b = Some (r, w')"
  using fresh_route_some[of "frames w" a b]
  by (auto simp: route_def Let_def split: option.splits)

lemma route_wf: "wf_world w \<Longrightarrow> route w a b = Some (r, w') \<Longrightarrow> wf_world w'"
  by (auto simp: route_def Let_def wf_world_def split: if_splits option.splits
           dest: fresh_route_path_in)

lemma route_path_in:
  "wf_world w \<Longrightarrow> route w a b = Some (Some r, w') \<Longrightarrow> path_in (length (frames w)) r"
  by (auto simp: route_def Let_def wf_world_def split: if_splits option.splits
           dest: fresh_route_path_in)

lemma gather_some:
  "path_in (length fs) r \<Longrightarrow> \<exists>res fs'. gather L r fs ms = Some (res, fs')"
proof (induction r arbitrary: fs ms)
  case Nil
  then show ?case by simp
next
  case (Cons nd rest)
  obtain n d where nd: "nd = (n, d)" by (cases nd)
  from Cons.prems nd have n: "n < length fs" and rest: "path_in (length fs) rest"
    by (auto simp: path_in_def)
  have upd: "\<And>c'. path_in (length (fs[n := c'])) rest" using rest by simp
  show ?case
    using nd n Cons.IH[OF rest] Cons.IH[OF upd]
    by (auto split: direction.splits option.splits sum.splits)
qed

lemma update_parent: "update_mat_from_parent L c = Inr c' \<Longrightarrow> parent c' = parent c"
  by (auto simp: update_mat_from_parent_def split: option.splits)

lemma gather_parents:
  "gather L r fs ms = Some (res, fs') \<Longrightarrow> map parent fs' = map parent fs"
proof (induction r arbitrary: fs ms)
  case Nil
  then show ?case by simp
next
  case (Cons nd rest)
  obtain n d where nd: "nd = (n, d)" by (cases nd)
  show ?case
  proof (cases "n < length fs")
    case False
    with Cons.prems nd show ?thesis by simp
  next
    case n: True
    show ?thesis
    proof (cases "d = Down \<and> mat_from_parent (fs ! n) = None")
      case False
      with Cons.prems nd n have "\<exists>ms'. gather L rest fs ms' = Some (res, fs')"
        by (cases d) (auto split: option.splits)
      then show ?thesis using Cons.IH by blast
    next
      case True
      show ?thesis
      proof (cases "update_mat_from_parent L (fs ! n)")
        case (Inl e)
        with Cons.prems nd n True show ?thesis by simp
      next
        case (Inr c')
        with Cons.prems nd n True
        have "gather L rest (fs[n := c']) (ms @ [mat_from_parent c']) = Some (res, fs')"
          by simp
        from Cons.IH[OF this] have "map parent fs' = map parent (fs[n := c'])" .
        also have "\<dots> = map parent fs"
          using update_parent[OF Inr] n by (simp add: map_update list_update_same_conv)
        finally show ?thesis .
      qed
    qed
  qed
qed

lemma parents_before_cong:
  "map parent fs' = map parent fs \<Longrightarrow> parents_before fs \<Longrightarrow> parents_before fs'"
proof -
  assume m: "map parent fs' = map parent fs" and p: "parents_before fs"
  from m have l: "length fs' = length fs" by (rule map_eq_imp_length_eq)
  have "\<And>i. i < length fs \<Longrightarrow> parent (fs' ! i) = parent (fs ! i)"
    using m l by (metis nth_map)
  with p l show ?thesis by (simp add: parents_before_def)
qed

lemma wf_frames_update:
  "wf_world w \<Longrightarrow> map parent fs' = map parent (frames w) \<Longrightarrow> wf_world (w\<lparr>frames := fs'\<rparr>)"
proof -
  assume w: "wf_world w" and m: "map parent fs' = map parent (frames w)"
  from m have l: "length fs' = length (frames w)" by (rule map_eq_imp_length_eq)
  from w m have "parents_before fs'" by (auto simp: wf_world_def intro: parents_before_cong)
  with w l show ?thesis by (simp add: wf_world_def)
qed

lemma path_in_mono: "path_in n r \<Longrightarrow> n \<le> m \<Longrightarrow> path_in m r"
  by (auto simp: path_in_def)

lemma wf_frames_append:
  assumes w: "wf_world w" and c: "known_parent w (parent c)"
  shows "wf_world (w\<lparr>frames := frames w @ [c]\<rparr>)"
proof -
  have "parents_before (frames w @ [c])"
    unfolding parents_before_def
  proof (intro allI impI)
    fix i q
    assume i: "i < length (frames w @ [c])" and q: "parent ((frames w @ [c]) ! i) = Some q"
    show "q < i"
    proof (cases "i < length (frames w)")
      case True
      with w q show ?thesis by (auto simp: wf_world_def parents_before_def nth_append)
    next
      case False
      with i have "i = length (frames w)" by simp
      with q c show ?thesis by (simp add: known_parent_def)
    qed
  qed
  moreover have "\<And>k r. route_base w k = Some r \<Longrightarrow> path_in (Suc (length (frames w))) r"
    using w path_in_mono[of "length (frames w)" _ "Suc (length (frames w))"]
    by (simp add: wf_world_def)
  moreover have "\<And>p. p < length (positions w) \<Longrightarrow>
                   owner (positions w ! p) < Suc (length (frames w))"
    using w by (auto simp: wf_world_def less_Suc_eq)
  ultimately show ?thesis by (simp add: wf_world_def)
qed

lemma wf_positions_append:
  "wf_world w \<Longrightarrow> owner p < length (frames w) \<Longrightarrow>
   wf_world (w\<lparr>positions := positions w @ [p]\<rparr>)"
  by (auto simp: wf_world_def nth_append less_Suc_eq)

lemma finish_some: "\<exists>res w'. finish L w self r = Some (res, w')"
  by (cases r) (auto simp: finish_def fill_position_def)

lemma finish_wf:
  "wf_world w \<Longrightarrow> self < length (frames w) \<Longrightarrow> finish L w self r = Some (res, w') \<Longrightarrow>
   wf_world w'"
  by (cases r) (auto simp: finish_def fill_position_def intro: wf_positions_append)

lemma map_parent_update:
  "n < length fs \<Longrightarrow> parent c' = parent (fs ! n) \<Longrightarrow> map parent (fs[n := c']) = map parent fs"
  by (simp add: map_update list_update_same_conv)

lemma to_this_wf:
  assumes wf: "wf_world w"
    and run: "to_this L w self p = Some (res, w')"
  shows "wf_world w'"
proof -
  let ?pos = "positions w ! p"
  let ?ow = "owner ?pos"
  from run have bounds: "self < length (frames w)" "p < length (positions w)"
      "?ow < length (frames w)"
    by (auto simp: to_this_def split: if_splits)
  show ?thesis
  proof (cases "?ow = self")
    case True
    with run bounds wf show ?thesis by (simp add: to_this_def Let_def)
  next
    case ne: False
    show ?thesis
    proof (cases "parent (frames w ! ?ow) = Some self")
      case True
      with run bounds ne have "\<exists>r. finish L w self r = Some (res, w')"
        by (auto simp: to_this_def Let_def)
      then show ?thesis using wf bounds by (auto dest: finish_wf)
    next
      case nchild: False
      show ?thesis
      proof (cases "parent (frames w ! self) = Some ?ow")
        case True
        let ?upd = "case mat_from_parent (frames w ! self) of
                      None \<Rightarrow> update_mat_from_parent L (frames w ! self)
                    | Some mi \<Rightarrow> Inr (frames w ! self)"
        show ?thesis
        proof (cases ?upd)
          case (Inl e)
          with run bounds ne nchild True have "w' = w"
            by (auto simp: to_this_def Let_def)
          with wf show ?thesis by simp
        next
          case (Inr c')
          have "parent c' = parent (frames w ! self)"
            using Inr by (auto split: option.splits dest: update_parent)
          then have "wf_world (w\<lparr>frames := (frames w)[self := c']\<rparr>)"
            using wf bounds by (intro wf_frames_update) (simp_all add: map_parent_update)
          moreover from run bounds ne nchild True Inr
          have "\<exists>r. finish L (w\<lparr>frames := (frames w)[self := c']\<rparr>) self r = Some (res, w')"
            by (auto simp: to_this_def Let_def)
          ultimately show ?thesis using bounds by (auto dest: finish_wf)
        qed
      next
        case nparent: False
        from run bounds ne nchild nparent
        obtain rt w1 where rt: "route w ?ow self = Some (rt, w1)"
          by (auto simp: to_this_def Let_def split: option.splits)
        have f1: "frames w1 = frames w" using rt by (rule route_frames)
        have wf1: "wf_world w1" using wf rt by (rule route_wf)
        show ?thesis
        proof (cases rt)
          case None
          with run bounds ne nchild nparent rt have "w' = w1"
            by (auto simp: to_this_def Let_def split: sum.splits)
          with wf1 show ?thesis by simp
        next
          case (Some cr)
          from run bounds ne nchild nparent rt Some
          obtain g fs where g: "gather L cr (frames w1) [] = Some (g, fs)"
            by (auto simp: to_this_def Let_def split: option.splits)
          have m: "map parent fs = map parent (frames w1)" using g by (rule gather_parents)
          have wf2: "wf_world (w1\<lparr>frames := fs\<rparr>)" using wf1 m by (rule wf_frames_update)
          have l: "self < length fs"
            using map_eq_imp_length_eq[OF m] f1 bounds by simp
          from run bounds ne nchild nparent rt Some g
          have "w' = w1\<lparr>frames := fs\<rparr> \<or>
                (\<exists>r. finish L (w1\<lparr>frames := fs\<rparr>) self r = Some (res, w'))"
            by (auto simp: to_this_def Let_def split: sum.splits)
          with wf2 l show ?thesis by (auto dest: finish_wf)
        qed
      qed
    qed
  qed
qed

lemma to_this_some:
  assumes wf: "wf_world w"
    and self: "self < length (frames w)" and p: "p < length (positions w)"
  shows "\<exists>res w'. to_this L w self p = Some (res, w')"
proof -
  let ?pos = "positions w ! p"
  let ?ow = "owner ?pos"
  from wf p have ow: "?ow < length (frames w)" by (simp add: wf_world_def)
  obtain rt w1 where rt: "route w ?ow self = Some (rt, w1)"
    using route_some[of w ?ow self] wf ow self by (auto simp: wf_world_def)
  have f1: "frames w1 = frames w" using rt by (rule route_frames)
  have g: "\<And>cr. rt = Some cr \<Longrightarrow> \<exists>g fs. gather L cr (frames w1) [] = Some (g, fs)"
    using route_path_in[OF wf] rt f1 by (auto intro: gather_some)
  show ?thesis
  proof (cases rt)
    case None
    with rt self p ow show ?thesis
      using finish_some[of L w self] finish_some[of L "w\<lparr>frames := fs\<rparr>" self for fs]
      by (auto simp: to_this_def Let_def split: option.splits sum.splits)
  next
    case (Some cr)
    from g[OF Some] obtain gg fs where gg: "gather L cr (frames w1) [] = Some (gg, fs)" by blast
    with Some rt self p ow show ?thesis
      using finish_some[of L w self] finish_some[of L "w\<lparr>frames := fs\<rparr>" self for fs]
        finish_some[of L "w1\<lparr>frames := fs\<rparr>" self]
      by (auto simp: to_this_def Let_def split: option.splits sum.splits)
  qed
qed

lemma parent_redefine: "parent (snd (redefine L c nx ny nz nrx nry nrz)) = parent c"
  by (simp add: redefine_def Let_def split: sum.splits)

lemma parent_cs_init: "cs_init L par nm x y z rx ry rz = Inr c \<Longrightarrow> parent c = par"
proof -
  assume a: "cs_init L par nm x y z rx ry rz = Inr c"
  let ?c0 = "\<lparr>parent = par, name = nm,
              cs_x = x, cs_y = y, cs_z = z, cs_rotx = rx, cs_roty = ry, cs_rotz = rz,
              mat_from_parent = None, mat_to_parent = None,
              x_stored = x, y_stored = y, z_stored = z,
              rotx_stored = rx, roty_stored = ry, rotz_stored = rz\<rparr>"
  from a have "c = snd (redefine L ?c0 (Some x) (Some y) (Some z) (Some rx) (Some ry) (Some rz))"
    by (auto simp: cs_init_def split: prod.splits option.splits)
  then show ?thesis
    using parent_redefine[of L ?c0 "Some x" "Some y" "Some z" "Some rx" "Some ry" "Some rz"]
    by simp
qed

lemma parent_backup: "parent (backup c) = parent c"
  by (simp add: backup_def)

lemma parent_rollback: "parent (snd (rollback L c)) = parent c"
  by (simp add: rollback_def parent_redefine)

lemma parent_get_derivative:
  "get_derivative L c nm dx dy dz drx dry drz = Inr c' \<Longrightarrow> parent c' = parent c"
  by (auto simp: get_derivative_def Let_def split: sum.splits dest: parent_cs_init)

lemma on_frame_wf:
  "wf_world w \<Longrightarrow> on_frame w r f = Some w' \<Longrightarrow> parent (f (frames w ! r)) = parent (frames w ! r) \<Longrightarrow>
   wf_world w'"
  by (auto simp: on_frame_def map_parent_update split: if_splits intro!: wf_frames_update)

lemma known_parent_of_frame:
  "wf_world w \<Longrightarrow> r < length (frames w) \<Longrightarrow> known_parent w (parent (frames w ! r))"
  by (cases "parent (frames w ! r)")
     (auto simp: known_parent_def wf_world_def parents_before_def dest: less_trans)

lemma wf_set_tuple:
  "wf_world w \<Longrightarrow> p < length (positions w) \<Longrightarrow>
   wf_world (w\<lparr>positions := (positions w)[p := (positions w ! p)\<lparr>pos_x := x, pos_y := y, pos_z := z\<rparr>]\<rparr>)"
  by (auto simp: wf_world_def nth_list_update)

lemma do_call_wf: "wf_world w \<Longrightarrow> do_call L w c = Some w' \<Longrightarrow> wf_world w'"
proof (cases c)
  case (New_cs par nm x y z rx ry rz)
  assume "wf_world w" "do_call L w c = Some w'"
  with New_cs show ?thesis
    by (auto split: if_splits sum.splits intro!: wf_frames_append dest!: parent_cs_init)
next
  case (New_position ow x y z)
  assume "wf_world w" "do_call L w c = Some w'"
  with New_position show ?thesis by (auto split: if_splits intro!: wf_positions_append)
next
  case (Redefine r nx ny nz nrx nry nrz)
  assume "wf_world w" "do_call L w c = Some w'"
  with Redefine show ?thesis by (auto elim!: on_frame_wf simp: parent_redefine)
next
  case (Get_derivative r nm dx dy dz drx dry drz)
  assume "wf_world w" "do_call L w c = Some w'"
  with Get_derivative show ?thesis
    by (auto split: if_splits sum.splits intro!: wf_frames_append
             simp: known_parent_of_frame dest!: parent_get_derivative)
next
  case (Backup r)
  assume "wf_world w" "do_call L w c = Some w'"
  with Backup show ?thesis by (auto elim!: on_frame_wf simp: parent_backup)
next
  case (Rollback r)
  assume "wf_world w" "do_call L w c = Some w'"
  with Rollback show ?thesis by (auto elim!: on_frame_wf simp: parent_rollback)
next
  case (Update_mat_from_parent r)
  assume "wf_world w" "do_call L w c = Some w'"
  with Update_mat_from_parent show ?thesis
    by (auto elim!: on_frame_wf split: sum.splits dest: update_parent)
next
  case (Route a b)
  assume "wf_world w" "do_call L w c = Some w'"
  with Route show ?thesis by (auto dest: route_wf)
next
  case (To_this self p)
  assume "wf_world w" "do_call L w c = Some w'"
  with To_this show ?thesis by (auto dest: to_this_wf)
next
  case (Set_tuple p x y z)
  assume "wf_world w" "do_call L w c = Some w'"
  with Set_tuple show ?thesis by (auto split: if_splits intro: wf_set_tuple)
qed

lemma run_wf: "wf_world w \<Longrightarrow> run L w cs = Some w' \<Longrightarrow> wf_world w'"
proof (induction cs arbitrary: w)
  case Nil
  then show ?case by simp
next
  case (Cons c cs)
  then show ?case by (auto split: option.splits dest: do_call_wf)
qed

lemma wf_empty_world: "wf_world empty_world"
  by (simp add: wf_world_def empty_world_def parents_before_def)

lemma do_call_some: "wf_world w \<Longrightarrow> valid_call w c \<Longrightarrow> \<exists>w'. do_call L w c = Some w'"
proof (cases c)
  case (Route a b)
  assume "wf_world w" "valid_call w c"
  with Route route_some[of w a b] show ?thesis by (auto simp: valid_call_def wf_world_def)
next
  case (To_this self p)
  assume "wf_world w" "valid_call w c"
  with To_this to_this_some[of w self p L] show ?thesis by (auto simp: valid_call_def)
qed (auto simp: valid_call_def on_frame_def split: sum.splits)

lemma calls_have_an_outcome:
  "run L empty_world cs = Some w \<Longrightarrow> valid_call w c \<Longrightarrow> \<exists>w'. do_call L w c = Some w'"
  using run_wf[OF wf_empty_world] do_call_some by blast

subsection \<open>redefine\<close>

text \<open>
  C5 as stated fails where the transform builder raises. \<open>redefine\<close> of a rotation of
  \<open>2 ** 1024\<close> degrees ends with the \<open>OverflowError\<close> of \<open>radians\<close>; the scalar
  is assigned by then, \<open>mat_to_parent\<close> is not recomputed and \<open>mat_from_parent\<close> is
  not cleared.
\<close>

theorem redefine_overflow_counterexample:
  "fst (redefine translation_lib frame_with_inverse None None None (Some float_range) None None)
     = Some OverflowError \<and>
   cs_rotx (snd (redefine translation_lib frame_with_inverse
                   None None None (Some float_range) None None)) = float_range \<and>
   mat_to_parent (snd (redefine translation_lib frame_with_inverse
                         None None None (Some float_range) None None)) = Some (1, 2, 3) \<and>
   mat_from_parent (snd (redefine translation_lib frame_with_inverse
                           None None None (Some float_range) None None)) = Some (- 1, - 2, - 3)"
  by (simp add: redefine_def calc_overflow frame_with_inverse_def plain_frame_def)

text \<open>
  C5, amended. \<open>redefine\<close> with any of its six arguments supplied or left out: a
  supplied argument becomes the pose scalar, an argument left out leaves the scalar as
  it is. When the transform builder returns a matrix for the six scalars that result,
  the call returns, \<open>mat_to_parent\<close> is that matrix and \<open>mat_from_parent\<close> is
  \<open>None\<close>. The call raises only when the transform builder does, with its exception.
\<close>

theorem redefine_result:
  "cs_x (snd (redefine L c nx ny nz nrx nry nrz)) = (case nx of None \<Rightarrow> cs_x c | Some v \<Rightarrow> v) \<and>
   cs_y (snd (redefine L c nx ny nz nrx nry nrz)) = (case ny of None \<Rightarrow> cs_y c | Some v \<Rightarrow> v) \<and>
   cs_z (snd (redefine L c nx ny nz nrx nry nrz)) = (case nz of None \<Rightarrow> cs_z c | Some v \<Rightarrow> v) \<and>
   cs_rotx (snd (redefine L c nx ny nz nrx nry nrz)) =
     (case nrx of None \<Rightarrow> cs_rotx c | Some v \<Rightarrow> v) \<and>
   cs_roty (snd (redefine L c nx ny nz nrx nry nrz)) =
     (case nry of None \<Rightarrow> cs_roty c | Some v \<Rightarrow> v) \<and>
   cs_rotz (snd (redefine L c nx ny nz nrx nry nrz)) =
     (case nrz of None \<Rightarrow> cs_rotz c | Some v \<Rightarrow> v) \<and>
   (case pose_matrix L (snd (redefine L c nx ny nz nrx nry nrz)) of
      Inl e \<Rightarrow> fst (redefine L c nx ny nz nrx nry nrz) = Some e
    | Inr m \<Rightarrow>
        fst (redefine L c nx ny nz nrx nry nrz) = None \<and>
        mat_to_parent (snd (redefine L c nx ny nz nrx nry nrz)) = Some m \<and>
        mat_from_parent (snd (redefine L c nx ny nz nrx nry nrz)) = None)"
  unfolding pose_matrix_redefine
  by (simp add: redefine_def Let_def split: sum.splits)

subsection \<open>rollback without backup\<close>

text \<open>
  C10. On a coordinate system that the constructor has just returned, \<open>rollback\<close>
  returns and changes nothing: the stored scalars are the ones of the construction, so
  the pose, both matrices and the stored scalars are what the constructor left, and the
  pose is the one supplied at construction.
\<close>

theorem rollback_fresh:
  "cs_init L par nm x y z rotx roty rotz = Inr c \<Longrightarrow>
   rollback L c = (None, c) \<and> pose c = (x, y, z, rotx, roty, rotz)"
  by (auto simp: cs_init_def redefine_def rollback_def pose_def Let_def split: sum.splits)

theorem rollback_fresh_witness:
  "cs_init translation_lib None ''F'' 1 2 3 0 0 0 = Inr (plain_frame None ''F'' 1 2 3) \<and>
   rollback translation_lib (plain_frame None ''F'' 1 2 3) = (None, plain_frame None ''F'' 1 2 3) \<and>
   pose (plain_frame None ''F'' 1 2 3) = (1, 2, 3, 0, 0, 0)"
  using rollback_fresh[OF plain_frame_constructed, of None "''F''" 1 2 3]
    plain_frame_constructed[of None "''F''" 1 2 3]
  by simp

subsection \<open>to_this on a position of the coordinate system itself\<close>

text \<open>
  C4. When the owner of the position is the coordinate system asked, \<open>to_this\<close>
  returns the reference it was given, and the store (coordinates and owner of the
  position with it) is unchanged.
\<close>

theorem to_this_same_owner:
  "self < length (frames w) \<Longrightarrow> p < length (positions w) \<Longrightarrow>
   owner (positions w ! p) = self \<Longrightarrow> to_this L w self p = Some (Inr p, w)"
  by (simp add: to_this_def Let_def)

theorem to_this_same_owner_witness:
  "(0::nat) < length (frames two_roots) \<and> (0::nat) < length (positions two_roots) \<and>
   owner (positions two_roots ! 0) = 0 \<and>
   to_this translation_lib two_roots 0 0 = Some (Inr 0, two_roots)"
proof -
  have a: "(0::nat) < length (frames two_roots)" by (simp add: two_roots_def)
  have b: "(0::nat) < length (positions two_roots)" by (simp add: two_roots_def)
  have c: "owner (positions two_roots ! 0) = 0" by (simp add: two_roots_def)
  show ?thesis using a b c to_this_same_owner[OF a b c, of translation_lib] by simp
qed

subsection \<open>get_derivative\<close>

text \<open>
  C1. The claim asks each of the six offsets to be tested on its own. The source tests
  \<open>d_z\<close> for the three rotations: an offset \<open>d_rotx\<close> supplied alone is dropped
  (the result is what the constructor gives for the pose of the old coordinate system),
  and \<open>d_z\<close> supplied alone ends in a \<open>TypeError\<close>, since \<open>d_rotx\<close> is then
  added although it is \<open>None\<close>.
\<close>

theorem get_derivative_gates_rotations_on_d_z:
  "get_derivative L c nm None None None (Some d) None None =
     cs_init L (parent c) nm (cs_x c) (cs_y c) (cs_z c) (cs_rotx c) (cs_roty c) (cs_rotz c) \<and>
   get_derivative L c nm None None (Some d) None None None = Inl TypeError"
  by (simp add: get_derivative_def py_add_def)

subsection \<open>to_this without a route\<close>

text \<open>
  C2. The claim asks for an exception that carries both names. The message of the
  \<open>Exception\<close> is never built: \<open>str(position)\<close> calls \<open>str\<close> on the owner, which
  is a \<open>TypeError\<close>. Between the two roots of \<open>two_roots\<close>, \<open>to_this\<close> ends with
  that \<open>TypeError\<close>.
\<close>

theorem no_route_raises_type_error:
  "route_error_message L fs pos self = Inl TypeError \<and>
   to_this translation_lib two_roots 1 0 = Some (Inl TypeError, two_roots)"
proof
  show "route_error_message L fs pos self = Inl TypeError"
    by (simp add: route_error_message_def position_str_def cs_str_def call_string_def)
  show "to_this translation_lib two_roots 1 0 = Some (Inl TypeError, two_roots)"
    by (simp add: to_this_def route_def route_desc_def fresh_route_def to_root_def
          route_error_message_def position_str_def cs_str_def call_string_def
          two_roots_def plain_frame_def Let_def numeral_2_eq_2)
qed

subsection \<open>The invariant after any sequence of calls\<close>





subsection \<open>backup, redefine, rollback\<close>




subsection \<open>The key of the route dictionary\<close>

text \<open>
  C3. The claim asks that two different ordered pairs of names never share an entry. The
  key is the two names joined by \<open>-\<close>: the pairs (\<open>a-b\<close>, \<open>c\<close>) and
  (\<open>a\<close>, \<open>b-c\<close>) have the same key. After the route from \<open>a-b\<close> to \<open>c\<close> has
  been stored, \<open>route\<close> from \<open>a\<close> to \<open>b-c\<close> returns that route, which is not
  the one the search finds.
\<close>

theorem route_key_collision:
  "route dash_world 1 2 = Some (Some [(1, Up), (0, Root), (2, Down)], dash_cached) \<and>
   route dash_cached 3 4 = Some (Some [(1, Up), (0, Root), (2, Down)], dash_cached) \<and>
   fresh_route (frames dash_cached) 3 4 =
     Some (Some [(3, Up), (1, Up), (0, Root), (2, Down), (4, Down)])"
  by (simp add: route_def route_desc_def fresh_route_def to_root_def index_of_def
        dash_cached_def dash_world_def dash_frames_def plain_frame_def Let_def
        numeral_2_eq_2 numeral_3_eq_3 eval_nat_numeral)

text \<open>
  The same entry makes \<open>to_this\<close> return a position where no route exists: in
  \<open>split_world\<close> the search from \<open>a\<close> to \<open>b-c\<close> finds none, and the conversion
  of the position of \<open>a\<close> to \<open>b-c\<close> returns a new position.
\<close>

lemma cached_route_crosses_trees:
  "fresh_route (frames split_world) 3 4 = Some None \<and>
   map_option (\<lambda>(res, w'). (res, positions w' ! 1)) (to_this translation_lib split_world 4 0) =
     Some (Inr 1, \<lparr>owner = 4, pos_x = 1, pos_y = - 1, pos_z = 0\<rparr>)"
  by (simp add: to_this_def route_def route_desc_def fresh_route_def to_root_def index_of_def
        finish_def fill_position_def dot_opt_def reduce_dot_def update_mat_from_parent_def
        split_world_def plain_frame_def translation_lib_fields
        Let_def numeral_2_eq_2 numeral_3_eq_3 eval_nat_numeral)

end
